theory Spec2Isabelle
  imports Main "HOL-Library.Word" "HOL-Library.Signed_Division"
begin

section \<open>The full-node facade (src/avn/backend.go)\<close>

subsection \<open>Byte slices\<close>

text \<open>
  A Go byte slice is either \<open>nil\<close> or a sequence of bytes; \<open>len\<close> of the \<open>nil\<close> slice
  is 0. \<open>None\<close> stands for \<open>nil\<close>.
\<close>

type_synonym bytes = "8 word list option"

fun len :: "bytes \<Rightarrow> nat" where
  "len None = 0"
| "len (Some bs) = length bs"

subsection \<open>makeExtraData\<close>

text \<open>
  \<^verbatim>\<open>
  func makeExtraData(extra []byte) []byte {
      if len(extra) == 0 {
          extra, _ = rlp.EncodeToBytes([]interface{}{ version, "gavn", runtime.Version(), runtime.GOOS })
      }
      if uint64(len(extra)) > params.MaximumExtraDataSize {
          log.Warn(...)
          extra = nil
      }
      return extra
  }
  \<close>
  The packages \<open>rlp\<close> and \<open>params\<close> are not part of the sources at hand, so the
  default extra data (the value \<open>rlp.EncodeToBytes\<close> returns for the version list) and
  the constant \<open>params.MaximumExtraDataSize\<close> (a \<open>uint64\<close>) are parameters.
  A slice length is below \<open>2^63\<close>, so \<open>uint64(len(extra))\<close> is the length itself.
\<close>

definition makeExtraData :: "bytes \<Rightarrow> 64 word \<Rightarrow> bytes \<Rightarrow> bytes" where
  "makeExtraData defaultExtra MaximumExtraDataSize extra =
     (let extra1 = (if len extra = 0 then defaultExtra else extra)
      in if len extra1 > unat MaximumExtraDataSize then None else extra1)"

subsection \<open>New: the configuration guards\<close>

text \<open>
  \<open>downloader.SyncMode\<close> is a \<open>uint32\<close>. Its constant \<open>LightSync\<close> and its method
  \<open>IsValid\<close> are declared in package \<open>downloader\<close>, outside the sources at hand: both are
  parameters of the model.
\<close>

type_synonym SyncMode = "32 word"

text \<open>
  The fields of \<open>avnconfig.Config\<close> that \<open>New\<close> reads or writes before it opens the
  database. \<open>Miner.GasPrice\<close> is a \<open>*big.Int\<close> (\<open>None\<close> is \<open>nil\<close>); the cache sizes
  are Go \<open>int\<close>s, 64-bit two's complement.
\<close>

record Config =
  SyncMode :: SyncMode
  MinerGasPrice :: "int option"
  NoPruning :: bool
  TrieCleanCache :: "64 word"
  TrieDirtyCache :: "64 word"
  SnapshotCache :: "64 word"

datatype NewError =
    ErrLightSyncMode
  | ErrInvalidSyncMode SyncMode
  | ErrConstruct string

text \<open>
  The sanitising steps of \<open>New\<close>:
  \<^verbatim>\<open>
  if config.Miner.GasPrice == nil || config.Miner.GasPrice.Cmp(common.Big0) <= 0 {
      config.Miner.GasPrice = new(big.Int).Set(avnconfig.Defaults.Miner.GasPrice)
  }
  if config.NoPruning && config.TrieDirtyCache > 0 {
      if config.SnapshotCache > 0 {
          config.TrieCleanCache += config.TrieDirtyCache * 3 / 5
          config.SnapshotCache += config.TrieDirtyCache * 2 / 5
      } else {
          config.TrieCleanCache += config.TrieDirtyCache
      }
      config.TrieDirtyCache = 0
  }
  \<close>
  Go's \<open>*\<close> and \<open>+\<close> wrap around and \<open>/\<close> truncates towards zero.
\<close>

definition goDiv :: "64 word \<Rightarrow> 64 word \<Rightarrow> 64 word" where
  "goDiv a b = word_of_int (sint a sdiv sint b)"

definition sanitizeGasPrice :: "int \<Rightarrow> Config \<Rightarrow> Config" where
  "sanitizeGasPrice defaultGasPrice config =
     (case MinerGasPrice config of
        None \<Rightarrow> config\<lparr>MinerGasPrice := Some defaultGasPrice\<rparr>
      | Some p \<Rightarrow> if p \<le> 0 then config\<lparr>MinerGasPrice := Some defaultGasPrice\<rparr> else config)"

definition sanitizeCaches :: "Config \<Rightarrow> Config" where
  "sanitizeCaches config =
     (if NoPruning config \<and> 0 <s TrieDirtyCache config then
        (if 0 <s SnapshotCache config then
           config\<lparr>TrieCleanCache := TrieCleanCache config + goDiv (TrieDirtyCache config * 3) 5,
                  SnapshotCache := SnapshotCache config + goDiv (TrieDirtyCache config * 2) 5,
                  TrieDirtyCache := 0\<rparr>
         else
           config\<lparr>TrieCleanCache := TrieCleanCache config + TrieDirtyCache config,
                  TrieDirtyCache := 0\<rparr>)
      else config)"

text \<open>
  \<^verbatim>\<open>
  func New(stack *node.Node, config *avnconfig.Config) (*Avalanria, error) {
      if config.SyncMode == downloader.LightSync {
          return nil, errors.New("can't run avn.Avalanria in light sync mode, use les.LightAvalanria")
      }
      if !config.SyncMode.IsValid() {
          return nil, fmt.Errorf("invalid sync mode %d", config.SyncMode)
      }
      ...
  \<close>
  Every \<open>return\<close> of \<open>New\<close> gives either \<open>(nil, err)\<close> or \<open>(avn, nil)\<close>, so the result
  is a sum: \<open>Inl\<close> the error (with a nil service), \<open>Inr\<close> the service. After the guards
  and the sanitising steps, \<open>New\<close> opens the database, sets the genesis block up, and
  assembles the block chain, the transaction pool, the protocol handler and the miner
  through packages outside the sources at hand; that remainder is the parameter
  \<open>construct\<close>, which receives the node and the sanitised configuration.
\<close>

definition New ::
  "SyncMode \<Rightarrow> (SyncMode \<Rightarrow> bool) \<Rightarrow> int \<Rightarrow> ('node \<Rightarrow> Config \<Rightarrow> NewError + 'svc) \<Rightarrow>
   'node \<Rightarrow> Config \<Rightarrow> NewError + 'svc" where
  "New LightSync IsValid defaultGasPrice construct stack config =
     (if SyncMode config = LightSync then Inl ErrLightSyncMode
      else if \<not> IsValid (SyncMode config) then Inl (ErrInvalidSyncMode (SyncMode config))
      else construct stack (sanitizeCaches (sanitizeGasPrice defaultGasPrice config)))"

subsection \<open>StartMining and StopMining\<close>

text \<open>
  An address is 20 bytes; \<open>common.Address{}\<close> is the zero address.
\<close>

type_synonym address = "160 word"

text \<open>
  The consensus engine behind \<open>s.engine\<close>. The type assertion
  \<open>s.engine.(threaded)\<close> succeeds for an engine with a \<open>SetThreads\<close> method (the
  proof-of-work engine), and \<open>s.engine.(*clique.Clique)\<close> for the clique engine.
  \<open>Threaded n\<close> is a proof-of-work engine whose thread count was last set to \<open>n\<close>;
  \<open>Clique a\<close> is a clique engine with the signer it was last authorised for.
  The thread count is a Go \<open>int\<close>; no arithmetic is done on it, so it is an \<open>int\<close> here.
\<close>

datatype Engine = Threaded int | Clique "address option" | OtherEngine

text \<open>
  Modelled from the spec: the engine's \<open>SetThreads\<close> method, whose implementation is
  outside the sources at hand; it sets the engine's "configurable thread count"
  (sections 4.3 and 6). An engine without the method is left as it is.
\<close>

fun SetThreads :: "int \<Rightarrow> Engine \<Rightarrow> Engine" where
  "SetThreads threads (Threaded _) = Threaded threads"
| "SetThreads threads e = e"

fun isThreaded :: "Engine \<Rightarrow> bool" where
  "isThreaded (Threaded _) = True"
| "isThreaded _ = False"

text \<open>
  The fields of \<open>Avalanria\<close> (and of the objects it points to) that \<open>StartMining\<close>,
  \<open>StopMining\<close> and \<open>Etherbase\<close> touch. A wallet is the list of its accounts' addresses.
  \<open>mining\<close> is what \<open>s.miner.Mining()\<close> reports and \<open>minerCoinbase\<close> the address the
  miner was started with.
\<close>

record Avalanria =
  engine :: Engine
  gasPrice :: int
  txPoolGasPrice :: int
  avnerbase :: address
  wallets :: "address list list"
  acceptTxs :: "32 word"
  mining :: bool
  minerCoinbase :: "address option"

datatype MiningError = EtherbaseMissing | SignerMissing

text \<open>
  \<^verbatim>\<open>
  func (s *Avalanria) Etherbase() (eb common.Address, err error) {
      avnerbase := s.avnerbase
      if avnerbase != (common.Address{}) { return avnerbase, nil }
      if wallets := s.AccountManager().Wallets(); len(wallets) > 0 {
          if accounts := wallets[0].Accounts(); len(accounts) > 0 {
              avnerbase := accounts[0].Address
              s.avnerbase = avnerbase
              return avnerbase, nil
          }
      }
      return common.Address{}, fmt.Errorf("avnerbase must be explicitly specified")
  }
  \<close>
\<close>

definition Etherbase :: "Avalanria \<Rightarrow> (MiningError + address) \<times> Avalanria" where
  "Etherbase s =
     (if avnerbase s \<noteq> 0 then (Inr (avnerbase s), s)
      else case wallets s of
             (a # _) # _ \<Rightarrow> (Inr a, s\<lparr>avnerbase := a\<rparr>)
           | _ \<Rightarrow> (Inl EtherbaseMissing, s))"

text \<open>
  \<^verbatim>\<open>
  func (s *Avalanria) StartMining(threads int) error {
      if th, ok := s.engine.(threaded); ok {
          if threads == 0 {
              threads = -1 // Disable the miner from within
          }
          th.SetThreads(threads)
      }
      if !s.IsMining() {
          price := s.gasPrice
          s.txPool.SetGasPrice(price)
          eb, err := s.Etherbase()
          if err != nil { return fmt.Errorf("avnerbase missing: %v", err) }
          if clique, ok := s.engine.(*clique.Clique); ok {
              wallet, err := s.accountManager.Find(accounts.Account{Address: eb})
              if wallet == nil || err != nil { return fmt.Errorf("signer missing: %v", err) }
              clique.Authorize(eb, wallet.SignData)
          }
          atomic.StoreUint32(&s.handler.acceptTxs, 1)
          go s.miner.Start(eb)
      }
      return nil
  }
  \<close>
  The result pairs the returned error (\<open>None\<close> is \<open>nil\<close>) with the state the call
  leaves behind; the miner started by the last statement is recorded as running.
  \<open>accounts.Manager.Find\<close> is outside the sources at hand and is the parameter
  \<open>Find\<close>: from the wallets and an address to the wallet that holds the account, or
  \<open>None\<close> when it returns no wallet or an error.
\<close>

definition StartMining ::
  "(address list list \<Rightarrow> address \<Rightarrow> address list option) \<Rightarrow> int \<Rightarrow> Avalanria \<Rightarrow>
   MiningError option \<times> Avalanria" where
  "StartMining Find threads s =
     (let s1 = (if isThreaded (engine s)
                then (let threads1 = (if threads = 0 then - 1 else threads)
                      in s\<lparr>engine := SetThreads threads1 (engine s)\<rparr>)
                else s)
      in if \<not> mining s1 then
           (let s2 = s1\<lparr>txPoolGasPrice := gasPrice s1\<rparr>
            in case Etherbase s2 of
                 (Inl e, s3) \<Rightarrow> (Some EtherbaseMissing, s3)
               | (Inr eb, s3) \<Rightarrow>
                   (case engine s3 of
                      Clique _ \<Rightarrow>
                        (case Find (wallets s3) eb of
                           None \<Rightarrow> (Some SignerMissing, s3)
                         | Some w \<Rightarrow>
                             (None, s3\<lparr>engine := Clique (Some eb), acceptTxs := 1,
                                       mining := True, minerCoinbase := Some eb\<rparr>))
                    | _ \<Rightarrow> (None, s3\<lparr>acceptTxs := 1, mining := True, minerCoinbase := Some eb\<rparr>)))
         else (None, s1))"

text \<open>
  \<^verbatim>\<open>
  func (s *Avalanria) StopMining() {
      if th, ok := s.engine.(threaded); ok {
          th.SetThreads(-1)
      }
      s.miner.Stop()
  }
  \<close>
\<close>

definition StopMining :: "Avalanria \<Rightarrow> Avalanria" where
  "StopMining s =
     (let s1 = (if isThreaded (engine s) then s\<lparr>engine := SetThreads (- 1) (engine s)\<rparr> else s)
      in s1\<lparr>mining := False\<rparr>)"

section \<open>The proof-of-work engine (package avnash)\<close>

text \<open>
  The engine's own files are not among the sources at hand; its tests are
  (\<open>TestRemoteSealer\<close>, \<open>TestHashrate\<close>, \<open>TestClosedRemoteSealer\<close>). The definitions
  of this section follow the specification's description of the engine, and the tests
  where they decide a point.
\<close>

type_synonym hash = "256 word"
type_synonym nonce = "64 word"

text \<open>
  Modelled from the spec: the header type the engine consumes, "a header type exposing
  {number, difficulty/target, mixDigest, nonce, sealHash}" (section 6).
\<close>

record Header =
  number :: nat
  difficulty :: nat
  mixDigest :: hash
  nonce :: nonce
  sealHash :: hash

text \<open>
  Modelled from the spec: the engine's modes (section 6, \<open>powMode\<close>) and its error kinds
  (section 7).
\<close>

datatype PowMode = ModeNormal | ModeTest | ModeFake | ModeFullFake

datatype PowError =
    NoMiningWork
  | EngineStopped
  | InvalidMixDigest
  | DifficultyTooHigh
  | GenerationFailed

subsection \<open>VerificationEngine\<close>

text \<open>
  Modelled from the spec: the epoch length (section 3), "EPOCH_LENGTH = 30000".
\<close>

definition EPOCH_LENGTH :: nat where
  "EPOCH_LENGTH = 30000"

text \<open>
  Modelled from the spec: the epoch length of a mode (section 4.2). \<open>ModeTest\<close> "uses a
  drastically shrunk epoch length", whose value the spec leaves open and which is the
  parameter \<open>testEpochLength\<close>.
\<close>

definition epochLength :: "PowMode \<Rightarrow> nat \<Rightarrow> nat" where
  "epochLength mode testEpochLength = (if mode = ModeTest then testEpochLength else EPOCH_LENGTH)"

text \<open>
  Modelled from the spec: the epoch of a block (section 3), "Epoch: integer =
  floor(blockNumber / EPOCH_LENGTH)".
\<close>

definition epoch :: "nat \<Rightarrow> nat \<Rightarrow> nat" where
  "epoch epochLen blockNumber = blockNumber div epochLen"

text \<open>
  Modelled from the spec: the buffer \<open>verify\<close> reads (section 4.2), "Cache (light) or
  Dataset (full) for epoch(header.number)". \<open>getCache\<close> and \<open>getDataset\<close> are the
  reads from the EpochStore, whose generation failures "are surfaced to the caller"
  (section 7).
\<close>

definition epochBuffer ::
  "PowMode \<Rightarrow> nat \<Rightarrow> (nat \<Rightarrow> PowError + 'buf) \<Rightarrow> (nat \<Rightarrow> PowError + 'buf) \<Rightarrow> Header \<Rightarrow> bool \<Rightarrow>
   PowError + 'buf" where
  "epochBuffer mode testEpochLength getCache getDataset header requireFullDataset =
     (let e = epoch (epochLength mode testEpochLength) (number header)
      in if requireFullDataset then getDataset e else getCache e)"

text \<open>
  Modelled from the spec: \<open>verify\<close> (section 4.2), whose code is not among the sources.
  It "recomputes computeHash using Cache (light) or Dataset (full) for
  epoch(header.number), compares the resulting numeric hash against targetFor(header)
  (lower value passes), and checks the mix digest matches the header's declared mix digest
  exactly. Fails with InvalidMixDigest or DifficultyTooHigh (hash >= target) as distinct
  error kinds." And: "Test/fake modes bypass the hash computation entirely: ModeFake
  accepts any header unconditionally; ModeTest uses a drastically shrunk epoch length/cache
  size [...] while exercising the same code paths; ModeFullFake additionally skips dataset
  generation."
  \<open>computeHash\<close> and \<open>targetFor\<close> are the opaque primitives of section 6. The spec
  does not fix which of the two checks comes first; the order is the parameter
  \<open>mixDigestFirst\<close>.
\<close>

definition verify ::
  "PowMode \<Rightarrow> nat \<Rightarrow> bool \<Rightarrow> (hash \<Rightarrow> 'buf \<Rightarrow> nonce \<Rightarrow> hash \<times> hash) \<Rightarrow> (Header \<Rightarrow> hash) \<Rightarrow>
   (nat \<Rightarrow> PowError + 'buf) \<Rightarrow> (nat \<Rightarrow> PowError + 'buf) \<Rightarrow> Header \<Rightarrow> bool \<Rightarrow> PowError + unit" where
  "verify mode testEpochLength mixDigestFirst computeHash targetFor getCache getDataset header
     requireFullDataset =
     (if mode = ModeFake \<or> mode = ModeFullFake then Inr ()
      else
        (case epochBuffer mode testEpochLength getCache getDataset header requireFullDataset of
           Inl err \<Rightarrow> Inl err
         | Inr buf \<Rightarrow>
             (case computeHash (sealHash header) buf (nonce header) of
                (mix, result) \<Rightarrow>
                  if mixDigestFirst then
                    (if mix \<noteq> mixDigest header then Inl InvalidMixDigest
                     else if result \<ge> targetFor header then Inl DifficultyTooHigh
                     else Inr ())
                  else
                    (if result \<ge> targetFor header then Inl DifficultyTooHigh
                     else if mix \<noteq> mixDigest header then Inl InvalidMixDigest
                     else Inr ()))))"

subsection \<open>RemoteSealer\<close>

text \<open>
  Modelled from the spec: the work item (section 3), "RemoteWorkItem: {hash-to-solve,
  seed hash, target, block number}". \<open>GetWork\<close> returns the four fields hex-encoded, in
  this order; the encoding is left out, so the first field of the reply is \<open>workHash\<close>.
\<close>

record WorkItem =
  workHash :: hash
  workSeedHash :: hash
  workTarget :: hash
  workNumber :: nat

text \<open>
  Modelled from the spec: the state the RemoteSealer's event loop owns (sections 3 and
  4.4): the stopped flag, the current work item, the bounded history of work items
  (newest first) and the hashrate map, "HashrateEntry: {reporterID, rate, lastUpdate
  timestamp}". The tests submit a rate as a 64-bit unsigned number and a reporter id as a
  hash; a timestamp is a number of time units.
\<close>

record RemoteSealer =
  stopped :: bool
  currentWork :: "WorkItem option"
  works :: "WorkItem list"
  rates :: "hash \<rightharpoonup> (64 word \<times> nat)"

text \<open>
  Modelled from the spec: the state of a new engine: running, with no work item, an
  empty history and no hashrate entry (\<open>TestRemoteSealer\<close> and \<open>TestHashrate\<close> find no
  work and a hashrate of 0 on a new engine).
\<close>

definition newRemoteSealer :: RemoteSealer where
  "newRemoteSealer = \<lparr>stopped = False, currentWork = None, works = [], rates = Map.empty\<rparr>"

text \<open>
  Modelled from the spec: the work item built for a header (sections 3 and 4.4): its
  seal hash, the seed hash of its epoch, its target and its block number. The seed hash
  of an epoch and \<open>targetFor\<close> are opaque and are parameters.
\<close>

definition makeWork :: "(nat \<Rightarrow> hash) \<Rightarrow> (Header \<Rightarrow> hash) \<Rightarrow> Header \<Rightarrow> WorkItem" where
  "makeWork seedHash targetFor header =
     \<lparr>workHash = sealHash header,
      workSeedHash = seedHash (epoch EPOCH_LENGTH (number header)),
      workTarget = targetFor header,
      workNumber = number header\<rparr>"

text \<open>
  Modelled from the spec: the event "new job started" (section 4.4), "construct a
  RemoteWorkItem, push to the bounded history (oldest evicted beyond a fixed depth [...]),
  and store it as current". The depth is a parameter. A stopped loop handles no event.
\<close>

definition newJob ::
  "nat \<Rightarrow> (nat \<Rightarrow> hash) \<Rightarrow> (Header \<Rightarrow> hash) \<Rightarrow> Header \<Rightarrow> RemoteSealer \<Rightarrow> RemoteSealer" where
  "newJob depth seedHash targetFor header s =
     (if stopped s then s
      else (let w = makeWork seedHash targetFor header
            in s\<lparr>currentWork := Some w, works := take depth (w # works s)\<rparr>))"

text \<open>
  Modelled from the spec: \<open>GetWork\<close> (section 4.4), "returns the current work item.
  Fails with NoMiningWork if no job has ever started or the engine is stopped", and
  \<open>Close\<close>, after which "all subsequent GetWork/SubmitWork/SubmitHashrate calls fail
  fast with EngineStopped"; section 7 has "NoMiningWork (GetWork with nothing pending),
  EngineStopped (any call after Close)". The two sentences disagree on the error of a
  stopped engine. The test \<open>TestClosedRemoteSealer\<close> decides it: after \<open>Close\<close>,
  \<open>GetWork\<close> must return \<open>errEthashStopped\<close>. \<open>TestRemoteSealer\<close> has
  \<open>errNoMiningWork\<close> before the first \<open>Seal\<close> on a running engine.
\<close>

definition GetWork :: "RemoteSealer \<Rightarrow> PowError + WorkItem" where
  "GetWork s =
     (if stopped s then Inl EngineStopped
      else case currentWork s of None \<Rightarrow> Inl NoMiningWork | Some w \<Rightarrow> Inr w)"

text \<open>
  Modelled from the spec: \<open>SubmitHashrate\<close> (section 4.4), "upserts a HashrateEntry
  with the current timestamp; returns false only if the engine is stopped". The current
  time is the argument \<open>now\<close>.
\<close>

definition SubmitHashrate :: "nat \<Rightarrow> 64 word \<Rightarrow> hash \<Rightarrow> RemoteSealer \<Rightarrow> bool \<times> RemoteSealer" where
  "SubmitHashrate now rate reporterID s =
     (if stopped s then (False, s)
      else (True, s\<lparr>rates := (rates s)(reporterID \<mapsto> (rate, now))\<rparr>))"

text \<open>
  Modelled from the spec: \<open>Close\<close> (section 4.4), which "transitions the engine to
  stopped".
\<close>

definition Close :: "RemoteSealer \<Rightarrow> RemoteSealer" where
  "Close s = s\<lparr>stopped := True\<rparr>"

text \<open>
  Modelled from the spec: the requests of the event loop (section 4.4) that change the
  state \<open>GetWork\<close> reads. \<open>SealEv header\<close> is a \<open>Seal(header)\<close> call that starts a
  sealing job. \<open>GetWork\<close> requests read the state only, and a \<open>SubmitWork\<close> request
  forwards a result to a job's sink without touching the stopped flag, the current work
  item, the history or the hashrate map; neither is an event here.
\<close>

datatype Event =
    SealEv Header
  | SubmitHashrateEv nat "64 word" hash
  | CloseEv

text \<open>
  Modelled from the spec: the loop handles "one request at a time" (section 4.4).
\<close>

fun handle ::
  "nat \<Rightarrow> (nat \<Rightarrow> hash) \<Rightarrow> (Header \<Rightarrow> hash) \<Rightarrow> RemoteSealer \<Rightarrow> Event \<Rightarrow> RemoteSealer" where
  "handle depth seedHash targetFor s (SealEv header) = newJob depth seedHash targetFor header s"
| "handle depth seedHash targetFor s (SubmitHashrateEv now rate reporterID) =
     snd (SubmitHashrate now rate reporterID s)"
| "handle depth seedHash targetFor s CloseEv = Close s"

text \<open>
  Modelled from the spec: the state of the loop after a sequence of events, handled in
  order from the state of a new engine.
\<close>

definition run ::
  "nat \<Rightarrow> (nat \<Rightarrow> hash) \<Rightarrow> (Header \<Rightarrow> hash) \<Rightarrow> Event list \<Rightarrow> RemoteSealer" where
  "run depth seedHash targetFor evs = foldl (handle depth seedHash targetFor) newRemoteSealer evs"

section \<open>Properties of the facade\<close>

subsection \<open>makeExtraData\<close>

text \<open>
  C9: for every extra-data input, \<open>makeExtraData\<close> returns a byte slice whose length
  never exceeds \<open>params.MaximumExtraDataSize\<close>. An empty input (\<open>nil\<close> or of length 0)
  is replaced by the default data, which then passes the same size check as any other
  value; an input longer than the limit is replaced by \<open>nil\<close>, neither truncated nor
  passed through; any other input is returned as it is.
\<close>

theorem makeExtraData_bounded:
  "len (makeExtraData defaultExtra MaximumExtraDataSize extra) \<le> unat MaximumExtraDataSize
   \<and> (len extra = 0 \<longrightarrow>
        makeExtraData defaultExtra MaximumExtraDataSize extra =
          (if len defaultExtra > unat MaximumExtraDataSize then None else defaultExtra))
   \<and> (len extra > unat MaximumExtraDataSize \<longrightarrow>
        makeExtraData defaultExtra MaximumExtraDataSize extra = None)
   \<and> (0 < len extra \<and> len extra \<le> unat MaximumExtraDataSize \<longrightarrow>
        makeExtraData defaultExtra MaximumExtraDataSize extra = extra)"
  by (auto simp: makeExtraData_def Let_def)

text \<open>
  The theorem at a limit of 32 bytes: a three-byte default replaces the \<open>nil\<close> and the
  empty input, a 33-byte input becomes \<open>nil\<close>, and a two-byte input is kept.
\<close>

theorem makeExtraData_bounded_witness:
  "len (makeExtraData (Some [1, 2, 3]) 32 (Some (replicate 33 7))) \<le> unat (32 :: 64 word)
   \<and> makeExtraData (Some [1, 2, 3]) 32 None = Some [1, 2, 3]
   \<and> makeExtraData (Some [1, 2, 3]) 32 (Some []) = Some [1, 2, 3]
   \<and> makeExtraData (Some [1, 2, 3]) 32 (Some (replicate 33 7)) = None
   \<and> makeExtraData (Some [1, 2, 3]) 32 (Some [4, 5]) = Some [4, 5]"
  using makeExtraData_bounded [of "Some [1, 2, 3]" 32 "Some (replicate 33 7)"]
    makeExtraData_bounded [of "Some [1, 2, 3]" 32 None]
    makeExtraData_bounded [of "Some [1, 2, 3]" 32 "Some []"]
    makeExtraData_bounded [of "Some [1, 2, 3]" 32 "Some [4, 5]"]
  by simp

subsection \<open>New\<close>

text \<open>
  C10: for every configuration whose \<open>SyncMode\<close> equals \<open>LightSync\<close>, and for every
  configuration whose \<open>SyncMode\<close> is invalid, \<open>New\<close> returns an error and a nil
  service: the light-sync error in the first case, the invalid-sync-mode error carrying
  the mode in the second. The service is never constructed: the result is no service,
  and it does not depend on the construction steps at all.
\<close>

theorem New_rejects_sync_mode:
  assumes "SyncMode config = LightSync \<or> \<not> IsValid (SyncMode config)"
  shows "New LightSync IsValid defaultGasPrice construct stack config =
           Inl (if SyncMode config = LightSync then ErrLightSyncMode
                else ErrInvalidSyncMode (SyncMode config))
         \<and> (\<forall>svc. New LightSync IsValid defaultGasPrice construct stack config \<noteq> Inr svc)
         \<and> (\<forall>construct'. New LightSync IsValid defaultGasPrice construct' stack config =
               New LightSync IsValid defaultGasPrice construct stack config)"
  using assms by (auto simp: New_def)

text \<open>
  The theorem with \<open>LightSync = 3\<close> and the modes 0 to 3 valid: mode 3 gives the
  light-sync error and mode 7 the invalid-sync-mode error, although the construction
  steps given here would succeed.
\<close>

theorem New_rejects_sync_mode_witness:
  "New 3 (\<lambda>m. m \<le> 3) 1000000000 (\<lambda>(stack :: unit) config. Inr config) ()
      \<lparr>SyncMode = 3, MinerGasPrice = None, NoPruning = False, TrieCleanCache = 0,
       TrieDirtyCache = 0, SnapshotCache = 0\<rparr> = Inl ErrLightSyncMode
   \<and> New 3 (\<lambda>m. m \<le> 3) 1000000000 (\<lambda>(stack :: unit) config. Inr config) ()
      \<lparr>SyncMode = 7, MinerGasPrice = None, NoPruning = False, TrieCleanCache = 0,
       TrieDirtyCache = 0, SnapshotCache = 0\<rparr> = Inl (ErrInvalidSyncMode 7)"
  using New_rejects_sync_mode [of
      "\<lparr>SyncMode = 3, MinerGasPrice = None, NoPruning = False, TrieCleanCache = 0,
        TrieDirtyCache = 0, SnapshotCache = 0\<rparr>"
      3 "\<lambda>m. m \<le> 3" 1000000000 "\<lambda>(stack :: unit) config. Inr config" "()"]
    New_rejects_sync_mode [of
      "\<lparr>SyncMode = 7, MinerGasPrice = None, NoPruning = False, TrieCleanCache = 0,
        TrieDirtyCache = 0, SnapshotCache = 0\<rparr>"
      3 "\<lambda>m. m \<le> 3" 1000000000 "\<lambda>(stack :: unit) config. Inr config" "()"]
  by simp

subsection \<open>StartMining and StopMining\<close>

text \<open>
  On an engine with a \<open>SetThreads\<close> method, \<open>StartMining\<close> hands the engine \<open>-1\<close>
  for a requested thread count of 0 and every other count as it is, whether or not the
  miner can then be started, and \<open>StopMining\<close> hands it \<open>-1\<close>.
\<close>

lemma StartMining_Threaded:
  "engine s = Threaded n \<Longrightarrow>
   engine (snd (StartMining Find threads s)) = Threaded (if threads = 0 then - 1 else threads)"
  by (auto simp: StartMining_def Etherbase_def Let_def split: list.splits option.splits)

lemma StopMining_Threaded:
  "engine s = Threaded n \<Longrightarrow> engine (StopMining s) = Threaded (- 1)"
  by (simp add: StopMining_def)

section \<open>Properties of the proof-of-work engine\<close>

subsection \<open>verify\<close>

text \<open>
  C7, as amended: in the modes \<open>ModeNormal\<close> and \<open>ModeTest\<close>, for every header,
  \<open>verify\<close> compares the recomputed numeric hash against \<open>targetFor(header)\<close> and passes
  only when the hash is strictly lower than the target; it fails with the distinct error kind \<open>InvalidMixDigest\<close>
  when the recomputed mix digest differs from the header's declared mix digest, and with
  \<open>DifficultyTooHigh\<close> when the hash is greater than or equal to the target, where a
  header that fails both checks gets the error of the check made first. In the modes
  \<open>ModeFake\<close> and \<open>ModeFullFake\<close>, \<open>verify\<close> accepts every header.
\<close>

theorem verify_checks:
  "(mode = ModeFake \<or> mode = ModeFullFake \<longrightarrow>
      verify mode testEpochLength mixDigestFirst computeHash targetFor getCache getDataset header
        requireFullDataset = Inr ())
   \<and> (mode = ModeNormal \<or> mode = ModeTest \<longrightarrow>
        (verify mode testEpochLength mixDigestFirst computeHash targetFor getCache getDataset header
           requireFullDataset = Inr () \<longrightarrow>
           (\<exists>buf mix result.
              epochBuffer mode testEpochLength getCache getDataset header requireFullDataset = Inr buf
              \<and> computeHash (sealHash header) buf (nonce header) = (mix, result)
              \<and> mix = mixDigest header \<and> result < targetFor header))
        \<and> (\<forall>buf mix result.
              epochBuffer mode testEpochLength getCache getDataset header requireFullDataset = Inr buf
              \<and> computeHash (sealHash header) buf (nonce header) = (mix, result) \<longrightarrow>
              (mix = mixDigest header \<and> result < targetFor header \<longrightarrow>
                 verify mode testEpochLength mixDigestFirst computeHash targetFor getCache getDataset
                   header requireFullDataset = Inr ())
              \<and> (mix \<noteq> mixDigest header \<and> result < targetFor header \<longrightarrow>
                 verify mode testEpochLength mixDigestFirst computeHash targetFor getCache getDataset
                   header requireFullDataset = Inl InvalidMixDigest)
              \<and> (mix = mixDigest header \<and> targetFor header \<le> result \<longrightarrow>
                 verify mode testEpochLength mixDigestFirst computeHash targetFor getCache getDataset
                   header requireFullDataset = Inl DifficultyTooHigh)
              \<and> (mix \<noteq> mixDigest header \<and> targetFor header \<le> result \<longrightarrow>
                 verify mode testEpochLength mixDigestFirst computeHash targetFor getCache getDataset
                   header requireFullDataset
                   = Inl (if mixDigestFirst then InvalidMixDigest else DifficultyTooHigh))))
   \<and> InvalidMixDigest \<noteq> DifficultyTooHigh"
  by (auto simp: verify_def split: sum.splits prod.splits if_splits)

text \<open>
  The theorem with a hash primitive that returns the mix digest 1 and, as the hash, the
  seal hash itself, against the target 10. In normal and test mode a header declaring
  mix digest 1 with seal hash 9 passes, one declaring mix digest 5 fails with
  \<open>InvalidMixDigest\<close>, one with seal hash 10 fails with \<open>DifficultyTooHigh\<close>, and one
  that fails both checks gets the error of the first check. In \<open>ModeFake\<close> and
  \<open>ModeFullFake\<close> the header that fails both checks passes.
\<close>

theorem verify_checks_witness:
  "verify ModeNormal 4 True (\<lambda>h (b :: unit) n. (1, h)) (\<lambda>h. 10) (\<lambda>e. Inr ()) (\<lambda>e. Inr ())
      \<lparr>number = 1, difficulty = 100, mixDigest = 1, nonce = 0, sealHash = 9\<rparr> False = Inr ()
   \<and> verify ModeNormal 4 True (\<lambda>h (b :: unit) n. (1, h)) (\<lambda>h. 10) (\<lambda>e. Inr ()) (\<lambda>e. Inr ())
      \<lparr>number = 1, difficulty = 100, mixDigest = 5, nonce = 0, sealHash = 9\<rparr> False
        = Inl InvalidMixDigest
   \<and> verify ModeTest 4 True (\<lambda>h (b :: unit) n. (1, h)) (\<lambda>h. 10) (\<lambda>e. Inr ()) (\<lambda>e. Inr ())
      \<lparr>number = 1, difficulty = 100, mixDigest = 1, nonce = 0, sealHash = 10\<rparr> True
        = Inl DifficultyTooHigh
   \<and> verify ModeNormal 4 False (\<lambda>h (b :: unit) n. (1, h)) (\<lambda>h. 10) (\<lambda>e. Inr ()) (\<lambda>e. Inr ())
      \<lparr>number = 1, difficulty = 100, mixDigest = 5, nonce = 0, sealHash = 10\<rparr> False
        = Inl DifficultyTooHigh
   \<and> verify ModeFake 4 True (\<lambda>h (b :: unit) n. (1, h)) (\<lambda>h. 10) (\<lambda>e. Inr ()) (\<lambda>e. Inr ())
      \<lparr>number = 1, difficulty = 100, mixDigest = 5, nonce = 0, sealHash = 10\<rparr> False = Inr ()
   \<and> verify ModeFullFake 4 True (\<lambda>h (b :: unit) n. (1, h)) (\<lambda>h. 10) (\<lambda>e. Inr ()) (\<lambda>e. Inr ())
      \<lparr>number = 1, difficulty = 100, mixDigest = 5, nonce = 0, sealHash = 10\<rparr> False = Inr ()"
  using verify_checks [of ModeNormal 4 True "\<lambda>h (b :: unit) n. (1, h)" "\<lambda>h. 10" "\<lambda>e. Inr ()"
      "\<lambda>e. Inr ()" "\<lparr>number = 1, difficulty = 100, mixDigest = 1, nonce = 0, sealHash = 9\<rparr>" False]
    verify_checks [of ModeNormal 4 True "\<lambda>h (b :: unit) n. (1, h)" "\<lambda>h. 10" "\<lambda>e. Inr ()"
      "\<lambda>e. Inr ()" "\<lparr>number = 1, difficulty = 100, mixDigest = 5, nonce = 0, sealHash = 9\<rparr>" False]
    verify_checks [of ModeTest 4 True "\<lambda>h (b :: unit) n. (1, h)" "\<lambda>h. 10" "\<lambda>e. Inr ()"
      "\<lambda>e. Inr ()" "\<lparr>number = 1, difficulty = 100, mixDigest = 1, nonce = 0, sealHash = 10\<rparr>" True]
    verify_checks [of ModeNormal 4 False "\<lambda>h (b :: unit) n. (1, h)" "\<lambda>h. 10" "\<lambda>e. Inr ()"
      "\<lambda>e. Inr ()" "\<lparr>number = 1, difficulty = 100, mixDigest = 5, nonce = 0, sealHash = 10\<rparr>" False]
    verify_checks [of ModeFake 4 True "\<lambda>h (b :: unit) n. (1, h)" "\<lambda>h. 10" "\<lambda>e. Inr ()"
      "\<lambda>e. Inr ()" "\<lparr>number = 1, difficulty = 100, mixDigest = 5, nonce = 0, sealHash = 10\<rparr>" False]
    verify_checks [of ModeFullFake 4 True "\<lambda>h (b :: unit) n. (1, h)" "\<lambda>h. 10" "\<lambda>e. Inr ()"
      "\<lambda>e. Inr ()" "\<lparr>number = 1, difficulty = 100, mixDigest = 5, nonce = 0, sealHash = 10\<rparr>" False]
  by (simp add: epochBuffer_def)

text \<open>
  C7 as stated, for every header, fails twice. In \<open>ModeFake\<close> the first header below
  passes although the hash the primitive gives for it, 7, is not lower than its target,
  3, and the mix digest the primitive gives, 0, differs from the declared one. In
  \<open>ModeNormal\<close> the second header fails both checks (its mix digest, 1, is not the
  declared 5 and its hash, 10, is not below the target, 10) and gets one error only:
  \<open>InvalidMixDigest\<close> and not \<open>DifficultyTooHigh\<close> when the mix digest is checked
  first, \<open>DifficultyTooHigh\<close> and not \<open>InvalidMixDigest\<close> when the hash is.
\<close>

theorem verify_fake_counterexample:
  "verify ModeFake 4 True (\<lambda>h (b :: unit) n. (0, 7)) (\<lambda>h. 3) (\<lambda>e. Inr ()) (\<lambda>e. Inr ())
      \<lparr>number = 1, difficulty = 100, mixDigest = 1, nonce = 0, sealHash = 9\<rparr> False = Inr ()
   \<and> \<not> snd ((\<lambda>h (b :: unit) n. (0 :: hash, 7 :: hash)) (9 :: hash) () (0 :: nonce))
         < (\<lambda>h. 3) \<lparr>number = 1, difficulty = 100, mixDigest = 1, nonce = 0, sealHash = 9\<rparr>
   \<and> fst ((\<lambda>h (b :: unit) n. (0 :: hash, 7 :: hash)) (9 :: hash) () (0 :: nonce))
         \<noteq> mixDigest \<lparr>number = 1, difficulty = 100, mixDigest = 1, nonce = 0, sealHash = 9\<rparr>
   \<and> verify ModeNormal 4 True (\<lambda>h (b :: unit) n. (1, h)) (\<lambda>h. 10) (\<lambda>e. Inr ()) (\<lambda>e. Inr ())
      \<lparr>number = 1, difficulty = 100, mixDigest = 5, nonce = 0, sealHash = 10\<rparr> False
        \<noteq> Inl DifficultyTooHigh
   \<and> verify ModeNormal 4 False (\<lambda>h (b :: unit) n. (1, h)) (\<lambda>h. 10) (\<lambda>e. Inr ()) (\<lambda>e. Inr ())
      \<lparr>number = 1, difficulty = 100, mixDigest = 5, nonce = 0, sealHash = 10\<rparr> False
        \<noteq> Inl InvalidMixDigest
   \<and> \<not> snd ((\<lambda>h (b :: unit) n. (1 :: hash, h :: hash)) (10 :: hash) () (0 :: nonce))
         < (\<lambda>h. 10) \<lparr>number = 1, difficulty = 100, mixDigest = 5, nonce = 0, sealHash = 10\<rparr>
   \<and> fst ((\<lambda>h (b :: unit) n. (1 :: hash, h :: hash)) (10 :: hash) () (0 :: nonce))
         \<noteq> mixDigest \<lparr>number = 1, difficulty = 100, mixDigest = 5, nonce = 0, sealHash = 10\<rparr>"
  by (simp add: verify_def epochBuffer_def)

subsection \<open>GetWork\<close>

lemma run_Nil: "run d sh tf [] = newRemoteSealer"
  by (simp add: run_def)

lemma run_snoc: "run d sh tf (evs @ [e]) = handle d sh tf (run d sh tf evs) e"
  by (simp add: run_def)

lemma stopped_handle: "stopped (handle d sh tf s e) \<longleftrightarrow> stopped s \<or> e = CloseEv"
  by (cases e) (auto simp: newJob_def SubmitHashrate_def Close_def Let_def)

lemma stopped_run: "stopped (run d sh tf evs) \<longleftrightarrow> CloseEv \<in> set evs"
proof (induction evs rule: rev_induct)
  case Nil
  show ?case by (simp add: run_Nil newRemoteSealer_def)
next
  case (snoc e evs)
  then show ?case by (auto simp: run_snoc stopped_handle)
qed

lemma currentWork_newJob:
  "currentWork (newJob d sh tf h s) =
     (if stopped s then currentWork s else Some (makeWork sh tf h))"
  by (simp add: newJob_def Let_def)

lemma currentWork_SubmitHashrate:
  "currentWork (snd (SubmitHashrate t r i s)) = currentWork s"
  by (simp add: SubmitHashrate_def)

lemma currentWork_run_None:
  "CloseEv \<notin> set evs \<Longrightarrow>
   currentWork (run d sh tf evs) = None \<longleftrightarrow> (\<forall>h. SealEv h \<notin> set evs)"
proof (induction evs rule: rev_induct)
  case Nil
  show ?case by (simp add: run_Nil newRemoteSealer_def)
next
  case (snoc e evs)
  then have ns: "\<not> stopped (run d sh tf evs)"
    by (simp add: stopped_run)
  from snoc have ih: "currentWork (run d sh tf evs) = None \<longleftrightarrow> (\<forall>h. SealEv h \<notin> set evs)"
    by simp
  show ?case
  proof (cases e)
    case (SealEv h)
    then show ?thesis using ns by (auto simp: run_snoc currentWork_newJob)
  next
    case (SubmitHashrateEv t r i)
    then show ?thesis using ih by (auto simp: run_snoc currentWork_SubmitHashrate)
  next
    case CloseEv
    then show ?thesis using snoc.prems by simp
  qed
qed

lemma currentWork_run_last:
  "CloseEv \<notin> set evs1 \<Longrightarrow> CloseEv \<notin> set evs2 \<Longrightarrow> \<forall>h'. SealEv h' \<notin> set evs2 \<Longrightarrow>
   currentWork (run d sh tf (evs1 @ SealEv h # evs2)) = Some (makeWork sh tf h)"
proof (induction evs2 rule: rev_induct)
  case Nil
  then have "\<not> stopped (run d sh tf evs1)"
    by (simp add: stopped_run)
  then show ?case
    using run_snoc [of d sh tf evs1 "SealEv h"] by (simp add: currentWork_newJob)
next
  case (snoc e evs2)
  have r: "run d sh tf (evs1 @ SealEv h # evs2 @ [e]) =
        handle d sh tf (run d sh tf (evs1 @ SealEv h # evs2)) e"
    using run_snoc [of d sh tf "evs1 @ SealEv h # evs2" e] by simp
  from snoc have ih: "currentWork (run d sh tf (evs1 @ SealEv h # evs2)) = Some (makeWork sh tf h)"
    by simp
  show ?case
  proof (cases e)
    case (SealEv h')
    then show ?thesis using snoc.prems by auto
  next
    case (SubmitHashrateEv t r' i)
    then show ?thesis using ih r by (simp add: currentWork_SubmitHashrate)
  next
    case CloseEv
    then show ?thesis using snoc.prems by simp
  qed
qed

text \<open>
  C6, as amended: over every sequence of events handled from a new engine, \<open>GetWork\<close>
  fails with \<open>NoMiningWork\<close> if and only if the engine is running (no \<open>Close\<close> has
  happened) and no sealing job has ever started; on a stopped engine it fails with
  \<open>EngineStopped\<close>; after at least one \<open>Seal(header)\<close> call on a running engine it
  succeeds and returns a work item whose first field equals the seal hash of the header
  sealed last.
\<close>

theorem GetWork_errors:
  "(GetWork (run depth seedHash targetFor evs) = Inl NoMiningWork
      \<longleftrightarrow> CloseEv \<notin> set evs \<and> (\<forall>h. SealEv h \<notin> set evs))
   \<and> (CloseEv \<in> set evs \<longrightarrow> GetWork (run depth seedHash targetFor evs) = Inl EngineStopped)
   \<and> (CloseEv \<notin> set before \<and> CloseEv \<notin> set after \<and> (\<forall>h. SealEv h \<notin> set after) \<longrightarrow>
        (\<exists>w. GetWork (run depth seedHash targetFor (before @ SealEv header # after)) = Inr w
             \<and> workHash w = sealHash header))"
proof (intro conjI impI)
  show "GetWork (run depth seedHash targetFor evs) = Inl NoMiningWork
      \<longleftrightarrow> CloseEv \<notin> set evs \<and> (\<forall>h. SealEv h \<notin> set evs)"
    using stopped_run [of depth seedHash targetFor evs]
      currentWork_run_None [of evs depth seedHash targetFor]
    by (auto simp: GetWork_def split: option.splits)
next
  assume "CloseEv \<in> set evs"
  then show "GetWork (run depth seedHash targetFor evs) = Inl EngineStopped"
    by (simp add: GetWork_def stopped_run)
next
  assume a: "CloseEv \<notin> set before \<and> CloseEv \<notin> set after \<and> (\<forall>h. SealEv h \<notin> set after)"
  then have c: "CloseEv \<notin> set before" "CloseEv \<notin> set after" and n: "\<forall>h. SealEv h \<notin> set after"
    by simp_all
  have "currentWork (run depth seedHash targetFor (before @ SealEv header # after))
          = Some (makeWork seedHash targetFor header)"
    by (rule currentWork_run_last [OF c n])
  moreover have "\<not> stopped (run depth seedHash targetFor (before @ SealEv header # after))"
    using c by (simp add: stopped_run)
  ultimately show "\<exists>w. GetWork (run depth seedHash targetFor (before @ SealEv header # after)) = Inr w
      \<and> workHash w = sealHash header"
    by (simp add: GetWork_def makeWork_def)
qed

text \<open>
  The theorem on three runs: no event at all, a \<open>Seal\<close> followed by \<open>Close\<close>, and
  the two \<open>Seal\<close> calls of \<open>TestRemoteSealer\<close> followed by a hashrate report.
\<close>

theorem GetWork_errors_witness:
  "GetWork (run 8 (\<lambda>e. 0) (\<lambda>h. 0) []) = Inl NoMiningWork
   \<and> GetWork (run 8 (\<lambda>e. 0) (\<lambda>h. 0)
        [SealEv \<lparr>number = 1, difficulty = 100, mixDigest = 0, nonce = 0, sealHash = 9\<rparr>, CloseEv])
       = Inl EngineStopped
   \<and> (\<exists>w. GetWork (run 8 (\<lambda>e. 0) (\<lambda>h. 0)
        [SealEv \<lparr>number = 1, difficulty = 100, mixDigest = 0, nonce = 0, sealHash = 9\<rparr>,
         SealEv \<lparr>number = 1, difficulty = 1000, mixDigest = 0, nonce = 0, sealHash = 11\<rparr>,
         SubmitHashrateEv 5 100 10]) = Inr w \<and> workHash w = 11)"
  using GetWork_errors [where depth = 8 and seedHash = "\<lambda>e. 0" and targetFor = "\<lambda>h. 0"
      and evs = "[]" and before = "[]" and after = "[]"
      and header = "\<lparr>number = 1, difficulty = 100, mixDigest = 0, nonce = 0, sealHash = 9\<rparr>"]
    GetWork_errors [where depth = 8 and seedHash = "\<lambda>e. 0" and targetFor = "\<lambda>h. 0"
      and evs = "[SealEv \<lparr>number = 1, difficulty = 100, mixDigest = 0, nonce = 0, sealHash = 9\<rparr>,
                 CloseEv]"
      and before = "[SealEv \<lparr>number = 1, difficulty = 100, mixDigest = 0, nonce = 0, sealHash = 9\<rparr>]"
      and after = "[SubmitHashrateEv 5 100 10]"
      and header = "\<lparr>number = 1, difficulty = 1000, mixDigest = 0, nonce = 0, sealHash = 11\<rparr>"]
  by simp

text \<open>
  C6 as stated, with \<open>NoMiningWork\<close> also on a stopped engine, fails after \<open>Close\<close>:
  the engine is stopped and \<open>GetWork\<close> fails with \<open>EngineStopped\<close>, not with
  \<open>NoMiningWork\<close>, as \<open>TestClosedRemoteSealer\<close> requires.
\<close>

theorem GetWork_stopped_counterexample:
  "stopped (run 8 (\<lambda>e. 0) (\<lambda>h. 0) [CloseEv])
   \<and> GetWork (run 8 (\<lambda>e. 0) (\<lambda>h. 0) [CloseEv]) = Inl EngineStopped
   \<and> GetWork (run 8 (\<lambda>e. 0) (\<lambda>h. 0) [CloseEv]) \<noteq> Inl NoMiningWork"
  by (simp add: run_def newRemoteSealer_def Close_def GetWork_def)

end
